theory Spec2Isabelle
  imports Complex_Main
begin

section \<open>Data model of the co-registration core (arosics/CoReg.py)\<close>

text \<open>
  The class \<open>COREG\<close> is embedded as a record of the attributes the verified methods read
  and write, and every method as a function that takes the record and returns the
  updated one.  Pixel sizes, areas, spectrum values and shifts are Python/numpy floats;
  they are embedded as \<open>real\<close>, so rounding is not part of the model.  Values that numpy
  would report as \<open>nan\<close>, \<open>inf\<close> or \<open>masked\<close> are embedded as \<open>None\<close>.
\<close>

datatype grid = Ref | Shift

text \<open>
  One constructor per failure the modelled code can signal.  The first four are raised
  by \<open>assert\<close> statements, the Python built-in errors by the interpreter, the others are
  the \<open>RuntimeError\<close>s handed to \<open>_handle_error\<close>.
\<close>

datatype error =
    UnequalProjections    \<comment> \<open>assert prj_equal(...) in \<open>_get_image_params\<close>\<close>
  | InsufficientOverlap   \<comment> \<open>the two asserts of \<open>_get_overlap_properties\<close>\<close>
  | ShapeMismatch         \<comment> \<open>assert im0.shape == im1.shape\<close>
  | ProgrammingError      \<comment> \<open>the two asserts at the end of \<open>_get_clip_window_properties\<close>\<close>
  | ZeroDivisionError
  | IndexError
  | ValueError
  | TypeError
  | AttributeError
  | WindowTooSmall        \<comment> \<open>'The matching window became too small ...'\<close>
  | ScpsTooSmall          \<comment> \<open>'Shifted cross power spectrum became too small ...'\<close>
  | NoMatchFound          \<comment> \<open>'No match found in the given window.'\<close>
  | ShiftTooLarge         \<comment> \<open>'The calculated shift ... is recognized as too large ...'\<close>
  | NonFinite             \<comment> \<open>no exception: a quotient with divisor zero, see \<open>calc_subpixel_shifts\<close>\<close>

record raster =
  prj :: string
  gt :: "real \<times> real \<times> real \<times> real \<times> real \<times> real"   \<comment> \<open>the geotransform\<close>
  xgsd :: real
  ygsd :: real

text \<open>The dictionary returned by the external \<open>get_overlap_polygon\<close>.\<close>

record overlap =
  overlap_poly :: bool          \<comment> \<open>truth value of the polygon: \<open>False\<close> when it is empty\<close>
  overlap_percentage :: real
  overlap_area :: real

record coreg =
  ref :: raster
  shift :: raster
  ignErr :: bool
  max_iter :: int
  max_shift :: real
  bin_ws :: bool
  force_quadratic_win :: bool
  grid2use :: grid
  imfft_gsd :: "real option"
  fftw_win_size_YX :: "(int \<times> int) option"
  x_shift_px :: "real option"
  y_shift_px :: "real option"
  x_shift_map :: "real option"
  y_shift_map :: "real option"
  shift_reliability :: "real option"
  tracked_errors :: "error list"
  success :: "bool option"
  validations :: nat   \<comment> \<open>not an attribute: the calls of \<open>_validate_integer_shifts\<close> so far\<close>

text \<open>
  A method that may raise returns the exception or its value, together with the object
  as the method left it: the object outlives the exception.
\<close>

type_synonym 'a res = "(error + 'a) \<times> coreg"

section \<open>Error handling\<close>

text \<open>\<open>COREG._handle_error\<close>; the optional warning is only printed.\<close>

definition handle_error :: "error \<Rightarrow> coreg \<Rightarrow> unit res" where
  "handle_error e s =
     (let s' = s\<lparr>tracked_errors := tracked_errors s @ [e], success := Some False\<rparr>
      in (if ignErr s' then Inr () else Inl e, s'))"

section \<open>Construction: projections, grid choice and overlap\<close>

text \<open>\<open>COREG._get_image_params\<close>; \<open>prj_equal\<close> is the external projection comparison.\<close>

definition get_image_params :: "(string \<Rightarrow> string \<Rightarrow> bool) \<Rightarrow> raster \<Rightarrow> raster \<Rightarrow> error + unit" where
  "get_image_params prj_equal r t =
     (if prj_equal (prj r) (prj t) then Inr () else Inl UnequalProjections)"

text \<open>Line 286 of \<open>COREG.__init__\<close>.\<close>

definition choose_grid2use :: "raster \<Rightarrow> raster \<Rightarrow> grid" where
  "choose_grid2use r t = (if xgsd t \<le> xgsd r then Ref else Shift)"

text \<open>Line 420: the area of a pixel of the raster named by \<open>grid2use\<close>.\<close>

definition px_area :: "grid \<Rightarrow> raster \<Rightarrow> raster \<Rightarrow> real" where
  "px_area g r t = (if g = Ref then xgsd r * ygsd r else xgsd t * ygsd t)"

text \<open>\<open>COREG._get_overlap_properties\<close>; the float division raises on a zero divisor.\<close>

definition get_overlap_properties :: "grid \<Rightarrow> raster \<Rightarrow> raster \<Rightarrow> overlap \<Rightarrow> error + unit" where
  "get_overlap_properties g r t ov =
     (if \<not> overlap_poly ov then Inl InsufficientOverlap
      else if px_area g r t = 0 then Inl ZeroDivisionError
      else
        let px_covered = overlap_area ov / px_area g r t
        in if px_covered > 16 * 16 then Inr () else Inl InsufficientOverlap)"

text \<open>The configuration arguments of \<open>COREG.__init__\<close> that the model keeps.\<close>

record config =
  cfg_max_iter :: int
  cfg_max_shift :: real
  cfg_binary_ws :: bool
  cfg_force_quadratic_win :: bool
  cfg_ignore_errors :: bool

text \<open>
  \<open>COREG.__init__\<close> up to and including \<open>_get_overlap_properties\<close> (line 290).  A raise
  in the constructor leaves no object behind, so the result is the error alone.  The
  window planning that follows works on the external geometry kernel.
\<close>

definition COREG_init ::
  "(string \<Rightarrow> string \<Rightarrow> bool) \<Rightarrow> config \<Rightarrow> raster \<Rightarrow> raster \<Rightarrow> overlap \<Rightarrow> error + coreg" where
  "COREG_init prj_equal c r t ov =
     (case get_image_params prj_equal r t of
        Inl e \<Rightarrow> Inl e
      | Inr _ \<Rightarrow>
          let g = choose_grid2use r t
          in (case get_overlap_properties g r t ov of
                Inl e \<Rightarrow> Inl e
              | Inr _ \<Rightarrow>
                  Inr \<lparr>ref = r, shift = t, ignErr = cfg_ignore_errors c,
                       max_iter = cfg_max_iter c, max_shift = cfg_max_shift c,
                       bin_ws = cfg_binary_ws c,
                       force_quadratic_win = cfg_force_quadratic_win c,
                       grid2use = g, imfft_gsd = None, fftw_win_size_YX = None,
                       x_shift_px = None, y_shift_px = None,
                       x_shift_map = None, y_shift_map = None, shift_reliability = None,
                       tracked_errors = [], success = None, validations = 0\<rparr>))"

text \<open>
  The closing block of \<open>COREG._get_clip_window_properties\<close> (lines 743 to 751).  The two
  containment tests of the asserts are computed by the external geometry kernel and
  passed in.
\<close>

definition set_imfft_gsd :: "bool \<Rightarrow> bool \<Rightarrow> coreg \<Rightarrow> unit res" where
  "set_imfft_gsd match_in_other other_in_overlap s =
     (if success s \<noteq> Some False then
        (if match_in_other \<and> other_in_overlap then
           (Inr (), s\<lparr>imfft_gsd :=
                        Some (if grid2use s = Ref then xgsd (ref s) else xgsd (shift s))\<rparr>)
         else (Inl ProgrammingError, s))
      else (Inr (), s))"

text \<open>The raster whose pixel grid anchors the matching.\<close>

definition grid_raster :: "coreg \<Rightarrow> raster" where
  "grid_raster s = (if grid2use s = Ref then ref s else shift s)"

section \<open>Python and numpy primitives\<close>

text \<open>
  The code is Python 3: \<open>/\<close> is true division, \<open>//\<close> floor division, and \<open>int\<close>
  of a float truncates towards zero.
\<close>

definition py_int :: "real \<Rightarrow> int" where
  "py_int x = (if 0 \<le> x then \<lfloor>x\<rfloor> else \<lceil>x\<rceil>)"

text \<open>\<open>xs[i]\<close>: an index below zero is taken relative to the end of the sequence.\<close>

definition py_get :: "'a list \<Rightarrow> int \<Rightarrow> error + 'a" where
  "py_get xs i =
     (if 0 \<le> i \<and> i < int (length xs) then Inr (xs ! nat i)
      else if i < 0 \<and> - int (length xs) \<le> i then Inr (xs ! nat (i + int (length xs)))
      else Inl IndexError)"

text \<open>The slice \<open>start:stop\<close> of a sequence of length \<open>n\<close> covers the indices \<open>a \<le> i < b\<close>.\<close>

definition slice_bounds :: "nat \<Rightarrow> int \<Rightarrow> int \<Rightarrow> nat \<times> nat" where
  "slice_bounds n start stop =
     (let norm = (\<lambda>i. if i < 0 then max (i + int n) 0 else min i (int n))
      in (nat (norm start), nat (norm stop)))"

definition py_slice :: "int \<Rightarrow> int \<Rightarrow> 'a list \<Rightarrow> 'a list" where
  "py_slice start stop xs =
     (let (a, b) = slice_bounds (length xs) start stop in take (b - a) (drop a xs))"

text \<open>
  A two-dimensional numpy array: its rows, and its number of columns (which an array
  without rows still has).
\<close>

datatype arr2 = Arr2 (ncols: nat) (rws: "real list list")

definition rectangular :: "arr2 \<Rightarrow> bool" where
  "rectangular a = list_all (\<lambda>r. length r = ncols a) (rws a)"

definition nrows :: "arr2 \<Rightarrow> nat" where
  "nrows a = length (rws a)"

definition shape :: "arr2 \<Rightarrow> int \<times> int" where
  "shape a = (int (nrows a), int (ncols a))"

text \<open>\<open>a[y0:y1, x0:x1]\<close>\<close>

definition slice2 :: "int \<Rightarrow> int \<Rightarrow> int \<Rightarrow> int \<Rightarrow> arr2 \<Rightarrow> arr2" where
  "slice2 y0 y1 x0 x1 a =
     (let (c0, c1) = slice_bounds (ncols a) x0 x1
      in Arr2 (c1 - c0) (map (py_slice x0 x1) (py_slice y0 y1 (rws a))))"

text \<open>\<open>max\<close> of a non-empty list, and \<open>min\<close> with a key: the first minimal element.\<close>

fun list_max :: "'a::linorder \<Rightarrow> 'a list \<Rightarrow> 'a" where
  "list_max b [] = b"
| "list_max b (x # xs) = list_max (if b < x then x else b) xs"

fun min_key :: "('a \<Rightarrow> int) \<Rightarrow> 'a \<Rightarrow> 'a list \<Rightarrow> 'a" where
  "min_key k b [] = b"
| "min_key k b (x # xs) = min_key k (if k x < k b then x else b) xs"

text \<open>\<open>np.argmax\<close> of the flattened array: the first position of the maximum.\<close>

fun argmax_from :: "real list \<Rightarrow> nat \<Rightarrow> nat \<Rightarrow> real \<Rightarrow> nat" where
  "argmax_from [] i bi bv = bi"
| "argmax_from (x # xs) i bi bv =
     (if bv < x then argmax_from xs (Suc i) i x else argmax_from xs (Suc i) bi bv)"

definition np_argmax :: "real list \<Rightarrow> error + nat" where
  "np_argmax xs = (case xs of [] \<Rightarrow> Inl ValueError | x # r \<Rightarrow> Inr (argmax_from r 1 0 x))"

section \<open>Window sizing and the shifted cross-power spectrum\<close>

definition binarySizes :: "int list" where
  "binarySizes = map (\<lambda>i. 2 ^ i) [3..<14]"

text \<open>\<open>COREG._shrink_winsize_to_binarySize\<close>\<close>

definition shrink_winsize_to_binarySize ::
  "int \<times> int \<Rightarrow> (int \<times> int) option \<Rightarrow> (int \<times> int) option" where
  "shrink_winsize_to_binarySize win_shape_YX target_size =
     (let possibSizes_X = filter (\<lambda>i. i \<le> snd win_shape_YX) binarySizes;
          possibSizes_Y = filter (\<lambda>i. i \<le> fst win_shape_YX) binarySizes
      in if possibSizes_X \<noteq> [] \<and> possibSizes_Y \<noteq> [] then
           let (tgt_size_X, tgt_size_Y) =
                 (case target_size of
                    Some t \<Rightarrow> t
                  | None \<Rightarrow> (list_max (hd possibSizes_X) (tl possibSizes_X),
                             list_max (hd possibSizes_Y) (tl possibSizes_Y)));
               closest_to_target_X =
                 min_key (\<lambda>x. \<bar>x - tgt_size_X\<bar>) (hd possibSizes_X) (tl possibSizes_X);
               closest_to_target_Y =
                 min_key (\<lambda>y. \<bar>y - tgt_size_Y\<bar>) (hd possibSizes_Y) (tl possibSizes_Y)
           in Some (closest_to_target_Y, closest_to_target_X)
         else None)"

text \<open>
  Lines 878 and 879 of \<open>_calc_shifted_cross_power_spectrum\<close>: the size of the FFT
  window for inputs of the given shape.
\<close>

definition fft_winsize :: "bool \<Rightarrow> bool \<Rightarrow> int \<times> int \<Rightarrow> (int \<times> int) option" where
  "fft_winsize binws quadratic shp =
     (let wsYX = (if binws then shrink_winsize_to_binarySize shp None else Some shp)
      in case wsYX of
           None \<Rightarrow> None
         | Some (y, x) \<Rightarrow> Some (if quadratic then (min y x, min y x) else (y, x)))"

text \<open>
  \<open>COREG._calc_shifted_cross_power_spectrum\<close> with both images given.  The numerical
  kernel \<open>xcorr\<close> stands for lines 892 to 940 (forward FFTs, normalised cross-power
  spectrum, inverse FFT, magnitude, \<open>fftshift\<close>), which belong to numpy and pyfftw; it
  may raise.
\<close>

type_synonym kernel = "arr2 \<Rightarrow> arr2 \<Rightarrow> error + arr2"

definition calc_shifted_cross_power_spectrum ::
  "kernel \<Rightarrow> arr2 \<Rightarrow> arr2 \<Rightarrow> coreg \<Rightarrow> arr2 option res" where
  "calc_shifted_cross_power_spectrum xcorr im0 im1 s =
     (if shape im0 \<noteq> shape im1 then (Inl ShapeMismatch, s)
      else
        let wsYX = fft_winsize (bin_ws s) (force_quadratic_win s) (shape im0)
        in if wsYX \<noteq> None \<and> wsYX \<noteq> Some (0, 0) then
             let (wsY, wsX) = the wsYX;
                 center_Y = real_of_int (fst (shape im0)) / 2;
                 center_X = real_of_int (snd (shape im0)) / 2;
                 xmin = py_int (center_X - real_of_int wsX / 2);
                 xmax = py_int (center_X + real_of_int wsX / 2);
                 ymin = py_int (center_Y - real_of_int wsY / 2);
                 ymax = py_int (center_Y + real_of_int wsY / 2);
                 in_arr0 = slice2 ymin ymax xmin xmax im0;
                 in_arr1 = slice2 ymin ymax xmin xmax im1
             in (case xcorr in_arr0 in_arr1 of
                   Inl e \<Rightarrow> (Inl e, s)
                 | Inr scps \<Rightarrow> (Inr (Some scps), s\<lparr>fftw_win_size_YX := wsYX\<rparr>))
           else
             (case handle_error WindowTooSmall s of
                (Inl e, s') \<Rightarrow> (Inl e, s')
              | (Inr _, s') \<Rightarrow> (Inr None, s'\<lparr>fftw_win_size_YX := wsYX\<rparr>)))"

section \<open>Concrete inputs\<close>

definition ex_cfg :: config where
  "ex_cfg = \<lparr>cfg_max_iter = 5, cfg_max_shift = 5, cfg_binary_ws = True,
            cfg_force_quadratic_win = True, cfg_ignore_errors = True\<rparr>"

definition ex_coarse :: raster where
  "ex_coarse = \<lparr>prj = ''EPSG:32633'', gt = (0, 10, 0, 0, 0, - 10), xgsd = 10, ygsd = 10\<rparr>"

definition ex_fine :: raster where
  "ex_fine = \<lparr>prj = ''EPSG:32633'', gt = (0, 5, 0, 0, 0, - 5), xgsd = 5, ygsd = 5\<rparr>"


definition ex_overlap :: overlap where
  "ex_overlap = \<lparr>overlap_poly = True, overlap_percentage = 100, overlap_area = 1000000\<rparr>"

definition ex_small_overlap :: overlap where
  "ex_small_overlap = \<lparr>overlap_poly = True, overlap_percentage = 1, overlap_area = 6400\<rparr>"

text \<open>The object built from \<open>ex_coarse\<close> as reference and \<open>ex_fine\<close> as target.\<close>

definition ex_state :: coreg where
  "ex_state = \<lparr>ref = ex_coarse, shift = ex_fine, ignErr = True, max_iter = 5, max_shift = 5,
      bin_ws = True, force_quadratic_win = True, grid2use = Ref, imfft_gsd = None,
      fftw_win_size_YX = None, x_shift_px = None, y_shift_px = None, x_shift_map = None,
      y_shift_map = None, shift_reliability = None, tracked_errors = [], success = None,
      validations = 0\<rparr>"

definition ex_im5 :: arr2 where
  "ex_im5 = Arr2 5 [[1, 2, 3, 4, 5], [1, 2, 3, 4, 5], [1, 2, 9, 4, 5], [1, 2, 3, 4, 5], [1, 2, 3, 4, 5]]"

section \<open>Peak, integer shift, side maxima and sub-pixel shift\<close>

text \<open>\<open>COREG._get_peakpos\<close>: \<open>np.unravel_index\<close> of the flat position of the maximum.\<close>

definition get_peakpos :: "arr2 \<Rightarrow> error + (int \<times> int)" where
  "get_peakpos scps =
     (case np_argmax (concat (rws scps)) of
        Inl e \<Rightarrow> Inl e
      | Inr max_flat_idx \<Rightarrow>
          Inr (int (max_flat_idx div ncols scps), int (max_flat_idx mod ncols scps)))"



text \<open>\<open>a[:, c]\<close>: the column \<open>c\<close> from top to bottom.\<close>

definition column :: "arr2 \<Rightarrow> int \<Rightarrow> error + real list" where
  "column a c =
     (if 0 \<le> c \<and> c < int (ncols a) then Inr (map (\<lambda>r. r ! nat c) (rws a))
      else if c < 0 \<and> - int (ncols a) \<le> c then
        Inr (map (\<lambda>r. r ! nat (c + int (ncols a))) (rws a))
      else Inl IndexError)"

text \<open>The dictionaries built by \<open>_find_side_maximum\<close>; the entry \<open>'side'\<close> is only printed.\<close>

record sidemax =
  sm_value :: real
  direction_factor :: int

text \<open>\<open>COREG._find_side_maximum\<close>\<close>

definition find_side_maximum :: "arr2 \<Rightarrow> error + (sidemax \<times> sidemax)" where
  "find_side_maximum scps =
     (let peakR = fst (shape scps) div 2; peakC = snd (shape scps) div 2
      in case py_get (rws scps) peakR of Inl e \<Rightarrow> Inl e | Inr profileX \<Rightarrow>
         (case column scps peakC of Inl e \<Rightarrow> Inl e | Inr profileY \<Rightarrow>
         (case py_get profileX (peakC - 1) of Inl e \<Rightarrow> Inl e | Inr sm_left \<Rightarrow>
         (case py_get profileX (peakC + 1) of Inl e \<Rightarrow> Inl e | Inr sm_right \<Rightarrow>
         (case py_get profileY (peakR - 1) of Inl e \<Rightarrow> Inl e | Inr sm_above \<Rightarrow>
         (case py_get profileY (peakR + 1) of Inl e \<Rightarrow> Inl e | Inr sm_below \<Rightarrow>
            Inr (\<lparr>sm_value = max sm_left sm_right,
                   direction_factor = (if sm_left > sm_right then - 1 else 1)\<rparr>,
                 \<lparr>sm_value = max sm_above sm_below,
                   direction_factor = (if sm_above > sm_below then - 1 else 1)\<rparr>)))))))"

text \<open>\<open>np.max\<close> of an array; it raises on an empty one.\<close>

definition np_max :: "arr2 \<Rightarrow> error + real" where
  "np_max a = (case concat (rws a) of [] \<Rightarrow> Inl ValueError | x # xs \<Rightarrow> Inr (list_max x xs))"

text \<open>
  \<open>COREG._calc_subpixel_shifts\<close>.  With a divisor zero numpy gives \<open>nan\<close> or \<open>inf\<close>
  and goes on; the model has no such numbers and stops there with \<open>NonFinite\<close>.
\<close>

definition calc_subpixel_shifts :: "arr2 \<Rightarrow> error + (real \<times> real)" where
  "calc_subpixel_shifts scps =
     (case find_side_maximum scps of Inl e \<Rightarrow> Inl e | Inr (sidemax_lr, sidemax_ab) \<Rightarrow>
      (case np_max scps of Inl e \<Rightarrow> Inl e | Inr m \<Rightarrow>
         if m + sm_value sidemax_lr = 0 \<or> m + sm_value sidemax_ab = 0 then Inl NonFinite
         else
           let x_subshift = (real_of_int (direction_factor sidemax_lr) * sm_value sidemax_lr)
                              / (m + sm_value sidemax_lr);
               y_subshift = (real_of_int (direction_factor sidemax_ab) * sm_value sidemax_ab)
                              / (m + sm_value sidemax_ab)
           in Inr (x_subshift, y_subshift)))"


section \<open>Reliability\<close>

text \<open>
  \<open>np.mean\<close> and \<open>np.std\<close> (the population standard deviation) of the unmasked values;
  of no values they are \<open>nan\<close> or \<open>masked\<close>.
\<close>

definition mean :: "real list \<Rightarrow> real option" where
  "mean xs = (if xs = [] then None else Some (sum_list xs / real (length xs)))"

definition std :: "real list \<Rightarrow> real option" where
  "std xs =
     (case mean xs of
        None \<Rightarrow> None
      | Some m \<Rightarrow> Some (sqrt (sum_list (map (\<lambda>x. (x - m)\<^sup>2) xs) / real (length xs))))"

text \<open>\<open>a[y0:y1, x0:x1] = v\<close>: the array after the assignment.\<close>

definition assign_block :: "int \<Rightarrow> int \<Rightarrow> int \<Rightarrow> int \<Rightarrow> real \<Rightarrow> arr2 \<Rightarrow> arr2" where
  "assign_block y0 y1 x0 x1 v a =
     (let (r0, r1) = slice_bounds (nrows a) y0 y1;
          (c0, c1) = slice_bounds (ncols a) x0 x1
      in Arr2 (ncols a)
           (map (\<lambda>(i, row).
                   map (\<lambda>(j, x). if r0 \<le> i \<and> i < r1 \<and> c0 \<le> j \<and> j < c1 then v else x)
                       (enumerate 0 row))
                (enumerate 0 (rws a))))"

text \<open>
  Lines 1057 and 1058 of \<open>_calc_shift_reliability\<close>, with the float arithmetic of a zero
  or undefined divisor written out.
\<close>

definition confidence :: "real option \<Rightarrow> real option \<Rightarrow> real option" where
  "confidence power_without_peak power_at_peak =
     (case (power_without_peak, power_at_peak) of
        (Some q, Some p) \<Rightarrow>
          if p = 0 then (if 0 < q then Some 0 else if q < 0 then Some 100 else None)
          else
            let confid = 100 - ((q / p) * 100)
            in Some (if confid > 100 then 100 else if confid < 0 then 0 else confid)
      | _ \<Rightarrow> None)"

text \<open>
  \<open>COREG._calc_shift_reliability\<close>.  \<open>scps_masked\<close> is another name for the argument, not
  a copy, so the assignment writes into the caller's array; the function returns the
  score together with the array as it is after the call.
\<close>

definition calc_shift_reliability :: "arr2 \<Rightarrow> error + (real option \<times> arr2)" where
  "calc_shift_reliability scps =
     (case get_peakpos scps of
        Inl e \<Rightarrow> Inl e
      | Inr (peakR, peakC) \<Rightarrow>
          let power_at_peak =
                mean (concat (rws (slice2 (peakR - 1) (peakR + 2) (peakC - 1) (peakC + 2) scps)));
              scps_masked = assign_block (peakR - 1) (peakR + 2) (peakC - 1) (peakC + 2) (- 9999) scps;
              unmasked = filter (\<lambda>v. v \<noteq> - 9999) (concat (rws scps_masked));
              power_without_peak =
                (case (mean unmasked, std unmasked) of
                   (Some m, Some sd) \<Rightarrow> Some (m + 2 * sd)
                 | _ \<Rightarrow> None)
          in Inr (confidence power_without_peak power_at_peak, scps_masked))"

section \<open>The claims' own notions, for comparison with the code\<close>


text \<open>The positions of the 3 by 3 block centred at \<open>(pR, pC)\<close>.\<close>

definition in_block :: "int \<Rightarrow> int \<Rightarrow> nat \<Rightarrow> nat \<Rightarrow> bool" where
  "in_block pR pC i j = (\<bar>int i - pR\<bar> \<le> 1 \<and> \<bar>int j - pC\<bar> \<le> 1)"


text \<open>A 3 by 3 spectrum with its maximum in the centre.\<close>

definition ex_scps3 :: arr2 where
  "ex_scps3 = Arr2 3 [[0, 1, 0], [3, 8, 1], [0, 2, 0]]"

text \<open>Two 4 by 4 spectra: the maximum at position (2, 2), and in the corner (0, 0).\<close>

definition ex_scps4 :: arr2 where
  "ex_scps4 = Arr2 4 [[1, 1, 1, 1], [1, 2, 3, 2], [1, 3, 9, 3], [1, 2, 3, 2]]"

definition ex_scps_corner :: arr2 where
  "ex_scps_corner = Arr2 4 [[9, 3, 1, 1], [3, 2, 1, 1], [1, 1, 1, 1], [1, 1, 1, 1]]"

section \<open>Validation of the integer shift\<close>








section \<open>The run: \<open>calculate_spatial_shifts\<close>\<close>







text \<open>The configuration of the object is the same in two states.\<close>

definition same_config :: "coreg \<Rightarrow> coreg \<Rightarrow> bool" where
  "same_config s s' =
     (ignErr s' = ignErr s \<and> max_iter s' = max_iter s \<and> max_shift s' = max_shift s
      \<and> bin_ws s' = bin_ws s \<and> force_quadratic_win s' = force_quadratic_win s
      \<and> ref s' = ref s \<and> shift s' = shift s \<and> grid2use s' = grid2use s
      \<and> imfft_gsd s' = imfft_gsd s)"







section \<open>The shift report and its inversion\<close>


















section \<open>Verified properties\<close>

subsection \<open>Grid choice and overlap\<close>

lemma ex_init: "COREG_init (=) ex_cfg ex_coarse ex_fine ex_overlap = Inr ex_state"
  by (simp add: COREG_init_def get_image_params_def get_overlap_properties_def px_area_def
      choose_grid2use_def ex_cfg_def ex_coarse_def ex_fine_def ex_overlap_def ex_state_def Let_def)

text \<open>
  Claim C3, as the code has it: the raster whose grid anchors the matching is the
  reference unless the target has the larger pixel size, so its pixel size is the larger
  of the two (the lower-resolution input), and after a successful window planning
  \<open>imfft_gsd\<close> is that pixel size.
\<close>

theorem grid2use_coarser:
  assumes "COREG_init pe c r t ov = Inr s"
  shows "(grid2use s = Ref \<longleftrightarrow> xgsd t \<le> xgsd r)
       \<and> xgsd (grid_raster s) = max (xgsd r) (xgsd t)
       \<and> set_imfft_gsd True True s = (Inr (), s\<lparr>imfft_gsd := Some (max (xgsd r) (xgsd t))\<rparr>)"
  using assms
  by (auto simp: COREG_init_def choose_grid2use_def grid_raster_def set_imfft_gsd_def Let_def
           split: sum.splits if_splits)

theorem grid2use_coarser_witness:
  "grid2use ex_state = Ref \<and> xgsd (grid_raster ex_state) = 10
   \<and> set_imfft_gsd True True ex_state = (Inr (), ex_state\<lparr>imfft_gsd := Some 10\<rparr>)"
  using grid2use_coarser [OF ex_init] by (simp add: ex_coarse_def ex_fine_def)

text \<open>
  Claim C3 as stated fails: with a 10 m reference and a 5 m target the anchor grid is
  that of the 10 m raster, and \<open>imfft_gsd\<close> is 10, not 5.
\<close>

theorem grid2use_finer_counterexample:
  "COREG_init (=) ex_cfg ex_coarse ex_fine ex_overlap = Inr ex_state
   \<and> xgsd ex_fine < xgsd ex_coarse
   \<and> grid_raster ex_state = ex_coarse
   \<and> imfft_gsd (snd (set_imfft_gsd True True ex_state)) = Some (xgsd ex_coarse)"
  by (simp add: ex_init)
     (simp add: grid_raster_def set_imfft_gsd_def ex_state_def ex_coarse_def ex_fine_def)

text \<open>
  Claim C8: when the overlap covers at most 256 pixels, the construction fails with
  \<open>InsufficientOverlap\<close>, and there is no object to carry a shift.  The pixel area \<open>pa\<close>
  may be the one the code divides by (that of the raster of \<open>grid2use\<close>) or any smaller
  one, such as that of the finer raster; the projections are equal, since unequal ones
  fail earlier.
\<close>

theorem overlap_bound:
  assumes "pe (prj r) (prj t)" and "0 < pa" and "pa \<le> px_area (choose_grid2use r t) r t"
    and "0 \<le> overlap_area ov" and "overlap_area ov / pa \<le> 256"
  shows "COREG_init pe c r t ov = Inl InsufficientOverlap"
proof -
  let ?A = "px_area (choose_grid2use r t) r t"
  have pos: "0 < ?A" using assms(2,3) by linarith
  have "overlap_area ov / ?A \<le> overlap_area ov / pa"
    using assms(2,3,4) by (simp add: frac_le)
  then have "overlap_area ov / ?A \<le> 256" using assms(5) by linarith
  then show ?thesis using pos assms(1)
    by (simp add: COREG_init_def get_image_params_def get_overlap_properties_def Let_def)
qed

theorem overlap_bound_witness:
  "COREG_init (=) ex_cfg ex_coarse ex_fine ex_small_overlap = Inl InsufficientOverlap"
proof -
  have a: "prj ex_coarse = prj ex_fine" by (simp add: ex_coarse_def ex_fine_def)
  have c: "(25::real) \<le> px_area (choose_grid2use ex_coarse ex_fine) ex_coarse ex_fine"
    by (simp add: px_area_def choose_grid2use_def ex_coarse_def ex_fine_def)
  have d: "0 \<le> overlap_area ex_small_overlap" "overlap_area ex_small_overlap / 25 \<le> 256"
    by (simp_all add: ex_small_overlap_def)
  show ?thesis using overlap_bound [of "(=)" ex_coarse ex_fine 25 ex_small_overlap ex_cfg] a c d
    by simp
qed

subsection \<open>Window sizing\<close>

lemma binarySizes_eq:
  "binarySizes = [8, 16, 32, 64, 128, 256, 512, 1024, 2048, 4096, 8192]"
  by (simp add: binarySizes_def upt_rec)

lemma list_max_Max: "list_max b xs = Max (set (b # xs))"
proof (induction xs arbitrary: b)
  case Nil
  then show ?case by simp
next
  case (Cons x xs)
  have "Max (set (b # x # xs)) = Max (set ((if b < x then x else b) # xs))"
    by (cases xs) (auto simp: max_def)
  then show ?case by (simp add: Cons.IH del: set_simps)
qed

lemma min_key_in: "min_key k b xs \<in> set (b # xs)"
  by (induction xs arbitrary: b) (auto split: if_splits)

lemma min_key_le_start: "k (min_key k b xs) \<le> k b"
proof (induction xs arbitrary: b)
  case Nil
  then show ?case by simp
next
  case (Cons x xs)
  have "k (min_key k (if k x < k b then x else b) xs) \<le> k (if k x < k b then x else b)"
    by (rule Cons.IH)
  then show ?case by (simp split: if_splits)
qed

lemma min_key_le: "y \<in> set (b # xs) \<Longrightarrow> k (min_key k b xs) \<le> k y"
proof (induction xs arbitrary: b)
  case Nil
  then show ?case by simp
next
  case (Cons x xs)
  let ?b = "if k x < k b then x else b"
  have s: "k (min_key k ?b xs) \<le> k ?b" by (rule min_key_le_start)
  from Cons.prems consider "y = b" | "y = x" | "y \<in> set xs" by auto
  then show ?case
  proof cases
    case 1 then show ?thesis using s by (simp split: if_splits)
  next
    case 2 then show ?thesis using s by (simp split: if_splits)
  next
    case 3 then show ?thesis using Cons.IH [of ?b] by simp
  qed
qed

lemma closest_to_max:
  assumes "ps \<noteq> []"
  shows "min_key (\<lambda>x. \<bar>x - list_max (hd ps) (tl ps)\<bar>) (hd ps) (tl ps) = Max (set ps)"
proof -
  have ps: "hd ps # tl ps = ps" using assms by simp
  let ?M = "Max (set ps)"
  have M: "list_max (hd ps) (tl ps) = ?M" by (simp add: list_max_Max ps del: set_simps)
  have "?M \<in> set ps" using assms by (intro Max_in) auto
  then have "\<bar>min_key (\<lambda>x. \<bar>x - ?M\<bar>) (hd ps) (tl ps) - ?M\<bar> \<le> \<bar>?M - ?M\<bar>"
    using min_key_le [of ?M "hd ps" "tl ps" "\<lambda>x. \<bar>x - ?M\<bar>"] ps by simp
  then show ?thesis by (simp add: M)
qed

lemma possib_nonempty: "filter (\<lambda>i. i \<le> n) binarySizes \<noteq> [] \<longleftrightarrow> 8 \<le> n"
  by (auto simp: binarySizes_eq filter_empty_conv)

lemma Max_possib:
  assumes "8 \<le> n"
  defines "M \<equiv> Max (set (filter (\<lambda>i. i \<le> n) binarySizes))"
  shows "M \<in> set binarySizes" "M \<le> n" "n < 2 * M \<or> M = 8192"
proof -
  let ?ps = "filter (\<lambda>i. i \<le> n) binarySizes"
  have "?ps \<noteq> []" using possib_nonempty [of n] assms(1) by blast
  then have ne: "set ?ps \<noteq> {}" by (simp only: set_empty not_False_eq_True)
  have Min: "M \<in> set ?ps" unfolding M_def using ne by (intro Max_in) auto
  then show a: "M \<in> set binarySizes" and b: "M \<le> n" by auto
  have up: "x \<in> set binarySizes \<Longrightarrow> x \<le> n \<Longrightarrow> x \<le> M" for x
    unfolding M_def by (intro Max_ge) auto
  show "n < 2 * M \<or> M = 8192"
  proof (rule ccontr)
    assume c: "\<not> (n < 2 * M \<or> M = 8192)"
    then have "2 * M \<in> set binarySizes" using a by (auto simp: binarySizes_eq)
    then have "2 * M \<le> M" using up c by auto
    then show False using a by (auto simp: binarySizes_eq)
  qed
qed

lemma shrink_eq:
  assumes "8 \<le> h" "8 \<le> w"
  shows "shrink_winsize_to_binarySize (h, w) None =
          Some (Max (set (filter (\<lambda>i. i \<le> h) binarySizes)),
                Max (set (filter (\<lambda>i. i \<le> w) binarySizes)))"
  using assms by (simp add: shrink_winsize_to_binarySize_def possib_nonempty closest_to_max Let_def)

lemma shrink_none:
  "h < 8 \<or> w < 8 \<Longrightarrow> shrink_winsize_to_binarySize (h, w) t = None"
  using possib_nonempty [of h] possib_nonempty [of w]
  by (auto simp add: shrink_winsize_to_binarySize_def Let_def)

lemma in_binarySizes:
  assumes "x \<in> set binarySizes"
  shows "\<exists>k\<in>{3..13::nat}. x = 2 ^ k"
proof -
  from assms obtain i where "i \<in> {3..<14::nat}" "x = 2 ^ i"
    unfolding binarySizes_def set_map set_upt by blast
  then show ?thesis by (intro bexI [of _ i]) auto
qed

text \<open>
  Claim C4, as the code has it.  With binary sizing, a shape with both axes of length at
  least 8 gets on each axis a power of two between \<open>2^3\<close> and \<open>2^13\<close> that is at most the
  length and, unless it is \<open>2^13\<close>, more than half of it: the largest power of two up to
  the length for lengths below 16384, and 8192 beyond.  A quadratic window takes the
  smaller of the two on both axes.  A shape with an axis shorter than 8 gets no size.
  Whenever the size is missing or \<open>(0, 0)\<close>, the computation signals \<open>WindowTooSmall\<close>
  through \<open>_handle_error\<close>: raised, or logged with no spectrum returned.
\<close>

theorem binary_winsize:
  "(8 \<le> h \<and> 8 \<le> w \<longrightarrow>
      (\<exists>sy sx. shrink_winsize_to_binarySize (h, w) None = Some (sy, sx)
         \<and> (\<exists>k\<in>{3..13::nat}. sy = 2 ^ k) \<and> sy \<le> h \<and> (h < 2 * sy \<or> sy = 2 ^ 13)
         \<and> (\<exists>k\<in>{3..13::nat}. sx = 2 ^ k) \<and> sx \<le> w \<and> (w < 2 * sx \<or> sx = 2 ^ 13)
         \<and> fft_winsize True False (h, w) = Some (sy, sx)
         \<and> fft_winsize True True (h, w) = Some (min sy sx, min sy sx)))
   \<and> (h < 8 \<or> w < 8 \<longrightarrow> fft_winsize True q (h, w) = None)
   \<and> (shape im0 = shape im1
        \<and> (fft_winsize (bin_ws s) (force_quadratic_win s) (shape im0) = None
           \<or> fft_winsize (bin_ws s) (force_quadratic_win s) (shape im0) = Some (0, 0)) \<longrightarrow>
        fst (calc_shifted_cross_power_spectrum xcorr im0 im1 s)
          = (if ignErr s then Inr None else Inl WindowTooSmall)
        \<and> tracked_errors (snd (calc_shifted_cross_power_spectrum xcorr im0 im1 s))
          = tracked_errors s @ [WindowTooSmall]
        \<and> success (snd (calc_shifted_cross_power_spectrum xcorr im0 im1 s)) = Some False)"
proof (intro conjI impI)
  assume a: "8 \<le> h \<and> 8 \<le> w"
  let ?sy = "Max (set (filter (\<lambda>i. i \<le> h) binarySizes))"
  let ?sx = "Max (set (filter (\<lambda>i. i \<le> w) binarySizes))"
  have e: "shrink_winsize_to_binarySize (h, w) None = Some (?sy, ?sx)"
    using a by (simp add: shrink_eq)
  have y: "(\<exists>k\<in>{3..13::nat}. ?sy = 2 ^ k)" "?sy \<le> h" "h < 2 * ?sy \<or> ?sy = 2 ^ 13"
    using a Max_possib [of h] in_binarySizes [of ?sy] by simp_all
  have x: "(\<exists>k\<in>{3..13::nat}. ?sx = 2 ^ k)" "?sx \<le> w" "w < 2 * ?sx \<or> ?sx = 2 ^ 13"
    using a Max_possib [of w] in_binarySizes [of ?sx] by simp_all
  have f: "fft_winsize True False (h, w) = Some (?sy, ?sx)"
    "fft_winsize True True (h, w) = Some (min ?sy ?sx, min ?sy ?sx)"
    by (simp_all add: fft_winsize_def e)
  show "\<exists>sy sx. shrink_winsize_to_binarySize (h, w) None = Some (sy, sx)
         \<and> (\<exists>k\<in>{3..13::nat}. sy = 2 ^ k) \<and> sy \<le> h \<and> (h < 2 * sy \<or> sy = 2 ^ 13)
         \<and> (\<exists>k\<in>{3..13::nat}. sx = 2 ^ k) \<and> sx \<le> w \<and> (w < 2 * sx \<or> sx = 2 ^ 13)
         \<and> fft_winsize True False (h, w) = Some (sy, sx)
         \<and> fft_winsize True True (h, w) = Some (min sy sx, min sy sx)"
    using e x y f by blast
next
  assume "h < 8 \<or> w < 8"
  then show "fft_winsize True q (h, w) = None"
    by (simp add: fft_winsize_def shrink_none)
next
  assume b: "shape im0 = shape im1
        \<and> (fft_winsize (bin_ws s) (force_quadratic_win s) (shape im0) = None
           \<or> fft_winsize (bin_ws s) (force_quadratic_win s) (shape im0) = Some (0, 0))"
  then show "fst (calc_shifted_cross_power_spectrum xcorr im0 im1 s)
          = (if ignErr s then Inr None else Inl WindowTooSmall)"
    by (auto simp: calc_shifted_cross_power_spectrum_def handle_error_def Let_def)
  from b show "tracked_errors (snd (calc_shifted_cross_power_spectrum xcorr im0 im1 s))
          = tracked_errors s @ [WindowTooSmall]"
    by (auto simp: calc_shifted_cross_power_spectrum_def handle_error_def Let_def)
  from b show "success (snd (calc_shifted_cross_power_spectrum xcorr im0 im1 s)) = Some False"
    by (auto simp: calc_shifted_cross_power_spectrum_def handle_error_def Let_def)
qed

theorem binary_winsize_witness:
  "shrink_winsize_to_binarySize (20, 100) None = Some (16, 64)
   \<and> fft_winsize True True (20, 100) = Some (16, 16)
   \<and> fft_winsize True True (5, 20) = None
   \<and> fst (calc_shifted_cross_power_spectrum (\<lambda>a b. Inr a) ex_im5 ex_im5 ex_state) = Inr None
   \<and> tracked_errors (snd (calc_shifted_cross_power_spectrum (\<lambda>a b. Inr a) ex_im5 ex_im5 ex_state))
       = [WindowTooSmall]"
proof -
  have sh: "shape ex_im5 = (5, 5)" by (simp add: ex_im5_def shape_def nrows_def)
  have n: "fft_winsize (bin_ws ex_state) (force_quadratic_win ex_state) (shape ex_im5) = None"
    by (simp add: sh ex_state_def fft_winsize_def shrink_winsize_to_binarySize_def binarySizes_eq)
  note T = binary_winsize [of 20 100 True ex_im5 ex_im5 ex_state "\<lambda>a b. Inr a"]
  note U = binary_winsize [of 5 20 True ex_im5 ex_im5 ex_state "\<lambda>a b. Inr a"]
  have pre: "(8::int) \<le> 20 \<and> (8::int) \<le> 100" by simp
  from T [THEN conjunct1, rule_format, OF pre] obtain sy sx where
    a: "shrink_winsize_to_binarySize (20, 100) None = Some (sy, sx)"
    and q: "fft_winsize True True (20, 100) = Some (min sy sx, min sy sx)"
    by blast
  have "shrink_winsize_to_binarySize (20, 100) None = Some (16, 64)"
    by (simp add: shrink_winsize_to_binarySize_def binarySizes_eq)
  then have v: "sy = 16" "sx = 64" using a by simp_all
  have b: "fft_winsize True True (5, 20) = None"
    by (rule U [THEN conjunct2, THEN conjunct1, rule_format]) simp
  have c: "fst (calc_shifted_cross_power_spectrum (\<lambda>a b. Inr a) ex_im5 ex_im5 ex_state)
             = (if ignErr ex_state then Inr None else Inl WindowTooSmall)"
    "tracked_errors (snd (calc_shifted_cross_power_spectrum (\<lambda>a b. Inr a) ex_im5 ex_im5 ex_state))
             = tracked_errors ex_state @ [WindowTooSmall]"
    using T [THEN conjunct2, THEN conjunct2, rule_format, OF conjI [OF refl disjI1 [OF n]]]
    by simp_all
  have i: "ignErr ex_state" "tracked_errors ex_state = []" by (simp_all add: ex_state_def)
  show ?thesis using a q v b c by (simp add: i)
qed

text \<open>
  Claim C4 as stated fails: a 5 by 20 window holds the powers of two 4 and 16 but gets no
  size at all, and a window of 20000 by 20000 gets 8192, not 16384.
\<close>

theorem binary_winsize_counterexample:
  "fft_winsize True False (5, 20) = None \<and> (2::int) ^ 2 \<le> 5 \<and> (2::int) ^ 4 \<le> 20
   \<and> fft_winsize True False (20000, 20000) = Some (8192, 8192) \<and> (2::int) ^ 14 \<le> 20000"
proof -
  have "shrink_winsize_to_binarySize (5, 20) None = None"
    by (simp add: shrink_none)
  moreover have "filter (\<lambda>i. i \<le> 20000) binarySizes = binarySizes"
    by (simp add: binarySizes_eq)
  moreover have "Max (set binarySizes) = 8192"
    by (simp add: binarySizes_eq)
  ultimately have "shrink_winsize_to_binarySize (5, 20) None = None"
    "shrink_winsize_to_binarySize (20000, 20000) None = Some (8192, 8192)"
    by (simp_all add: shrink_eq del: set_filter)
  then
  show ?thesis by (simp add: fft_winsize_def)
qed

subsection \<open>Sub-pixel shift\<close>

lemma py_get_nat: "i < length xs \<Longrightarrow> py_get xs (int i) = Inr (xs ! i)"
  by (simp add: py_get_def)

lemma column_nat: "c < ncols a \<Longrightarrow> column a (int c) = Inr (map (\<lambda>r. r ! c) (rws a))"
  by (simp add: column_def)

lemma rectangular_row: "rectangular a \<Longrightarrow> i < nrows a \<Longrightarrow> length (rws a ! i) = ncols a"
  by (simp add: rectangular_def nrows_def list_all_length)

lemma find_side_maximum_centre:
  assumes rect: "rectangular scps" and H: "3 \<le> nrows scps" and W: "3 \<le> ncols scps"
  shows "find_side_maximum scps =
     Inr (\<lparr>sm_value = max (rws scps ! (nrows scps div 2) ! (ncols scps div 2 - 1))
                         (rws scps ! (nrows scps div 2) ! (ncols scps div 2 + 1)),
            direction_factor =
              (if rws scps ! (nrows scps div 2) ! (ncols scps div 2 - 1)
                    > rws scps ! (nrows scps div 2) ! (ncols scps div 2 + 1) then - 1 else 1)\<rparr>,
          \<lparr>sm_value = max (rws scps ! (nrows scps div 2 - 1) ! (ncols scps div 2))
                         (rws scps ! (nrows scps div 2 + 1) ! (ncols scps div 2)),
            direction_factor =
              (if rws scps ! (nrows scps div 2 - 1) ! (ncols scps div 2)
                    > rws scps ! (nrows scps div 2 + 1) ! (ncols scps div 2) then - 1 else 1)\<rparr>)"
proof -
  let ?pR = "nrows scps div 2" and ?pC = "ncols scps div 2"
  have r: "?pR < nrows scps" "?pR - 1 < nrows scps" "?pR + 1 < nrows scps" "1 \<le> ?pR"
    using H by auto
  have c: "?pC < ncols scps" "?pC - 1 < ncols scps" "?pC + 1 < ncols scps" "1 \<le> ?pC"
    using W by auto
  have pR: "fst (shape scps) div 2 = int ?pR" and pC: "snd (shape scps) div 2 = int ?pC"
    by (simp_all add: shape_def zdiv_int)
  have len: "length (rws scps ! ?pR) = ncols scps"
    using rect r(1) by (rule rectangular_row)
  have m1: "int ?pR - 1 = int (?pR - 1)" "int ?pC - 1 = int (?pC - 1)"
    using r(4) c(4) by simp_all
  have p1: "int ?pR + 1 = int (?pR + 1)" "int ?pC + 1 = int (?pC + 1)"
    by simp_all
  have gX: "py_get (rws scps) (int ?pR) = Inr (rws scps ! ?pR)"
    using r(1) by (simp add: py_get_nat nrows_def)
  have gY: "column scps (int ?pC) = Inr (map (\<lambda>r. r ! ?pC) (rws scps))"
    using c(1) by (rule column_nat)
  have l: "py_get (rws scps ! ?pR) (int (?pC - 1)) = Inr (rws scps ! ?pR ! (?pC - 1))"
    and rr: "py_get (rws scps ! ?pR) (int (?pC + 1)) = Inr (rws scps ! ?pR ! (?pC + 1))"
    using c(2,3) by (intro py_get_nat; simp only: len)+
  have ab: "py_get (map (\<lambda>r. r ! ?pC) (rws scps)) (int (?pR - 1)) = Inr (rws scps ! (?pR - 1) ! ?pC)"
    and bl: "py_get (map (\<lambda>r. r ! ?pC) (rws scps)) (int (?pR + 1)) = Inr (rws scps ! (?pR + 1) ! ?pC)"
    using r(2,3) by (subst py_get_nat; simp add: nrows_def)+
  show ?thesis
    unfolding find_side_maximum_def Let_def pR pC m1 p1
    by (simp only: gX gY l rr ab bl sum.case)
qed

lemma np_max_Max:
  assumes "concat (rws a) \<noteq> []"
  shows "np_max a = Inr (Max (set (concat (rws a))))"
proof -
  obtain x xs where e: "concat (rws a) = x # xs" using assms by (cases "concat (rws a)") auto
  show ?thesis by (simp add: np_max_def e list_max_Max del: set_simps)
qed

lemma concat_nonempty:
  assumes "rectangular a" "0 < nrows a" "0 < ncols a"
  shows "concat (rws a) \<noteq> []"
proof -
  have "rws a ! 0 \<in> set (rws a)" using assms(2) by (simp add: nrows_def)
  moreover have "length (rws a ! 0) = ncols a" using assms(1,2) by (rule rectangular_row)
  ultimately have "\<exists>xs\<in>set (rws a). xs \<noteq> []"
    using assms(3) by (intro bexI [of _ "rws a ! 0"]) auto
  then show ?thesis by simp
qed

text \<open>
  Claim C5: on a spectrum with at least three rows and columns the sub-pixel shift is
  read off the four neighbours of the central position \<open>(H div 2, W div 2)\<close>: per axis
  the larger neighbour \<open>v\<close>, with direction \<open>-1\<close> when the neighbour at the lower index is
  strictly larger and \<open>+1\<close> otherwise, gives \<open>sgn v / (max(SCPS) + v)\<close>.  The divisors are
  taken to be different from zero, as they are for a magnitude spectrum that is not
  zero everywhere.
\<close>

theorem subpixel_shift_formula:
  fixes scps :: arr2
  defines "pR \<equiv> nrows scps div 2" and "pC \<equiv> ncols scps div 2"
  defines "sm_l \<equiv> rws scps ! pR ! (pC - 1)" and "sm_r \<equiv> rws scps ! pR ! (pC + 1)"
    and "sm_a \<equiv> rws scps ! (pR - 1) ! pC" and "sm_b \<equiv> rws scps ! (pR + 1) ! pC"
    and "M \<equiv> Max (set (concat (rws scps)))"
  assumes "rectangular scps" and "3 \<le> nrows scps" and "3 \<le> ncols scps"
    and "M + max sm_l sm_r \<noteq> 0" and "M + max sm_a sm_b \<noteq> 0"
  shows "calc_subpixel_shifts scps =
           Inr ((if sm_l > sm_r then - 1 else 1) * max sm_l sm_r / (M + max sm_l sm_r),
                (if sm_a > sm_b then - 1 else 1) * max sm_a sm_b / (M + max sm_a sm_b))"
proof -
  have ne: "concat (rws scps) \<noteq> []"
    using assms(8,9,10) by (intro concat_nonempty) auto
  have fs: "find_side_maximum scps =
     Inr (\<lparr>sm_value = max sm_l sm_r, direction_factor = (if sm_l > sm_r then - 1 else 1)\<rparr>,
          \<lparr>sm_value = max sm_a sm_b, direction_factor = (if sm_a > sm_b then - 1 else 1)\<rparr>)"
    unfolding sm_l_def sm_r_def sm_a_def sm_b_def pR_def pC_def
    by (rule find_side_maximum_centre [OF assms(8,9,10)])
  have mx: "np_max scps = Inr M"
    unfolding M_def by (rule np_max_Max [OF ne])
  show ?thesis
    using assms(11,12) by (simp add: calc_subpixel_shifts_def fs mx)
qed

theorem subpixel_shift_formula_witness:
  "calc_subpixel_shifts ex_scps3 = Inr (- 3 / 11, 1 / 5)"
proof -
  have r: "rectangular ex_scps3" "3 \<le> nrows ex_scps3" "3 \<le> ncols ex_scps3"
    by (simp_all add: ex_scps3_def rectangular_def nrows_def)
  have M: "Max (set (concat (rws ex_scps3))) = 8" by (simp add: ex_scps3_def)
  have d: "nrows ex_scps3 div 2 = 1" "ncols ex_scps3 div 2 = 1"
    by (simp_all add: ex_scps3_def nrows_def)
  have v: "rws ex_scps3 ! 1 ! (1 - 1) = 3" "rws ex_scps3 ! 1 ! (1 + 1) = 1"
          "rws ex_scps3 ! (1 - 1) ! 1 = 1" "rws ex_scps3 ! (1 + 1) ! 1 = 2"
    by (simp_all add: ex_scps3_def)
  note T = subpixel_shift_formula [of ex_scps3, unfolded d v M, OF r]
  have "calc_subpixel_shifts ex_scps3
          = Inr ((if (3::real) > 1 then - 1 else 1) * max 3 1 / (8 + max 3 1),
                 (if (1::real) > 2 then - 1 else 1) * max 1 2 / (8 + max 1 2))"
    by (rule T) simp_all
  then show ?thesis by simp
qed

subsection \<open>Slices and blocks\<close>

lemma slice_bounds_nonneg:
  "0 \<le> a \<Longrightarrow> 0 \<le> b \<Longrightarrow>
   slice_bounds n a b = (nat (min a (int n)), nat (min b (int n)))"
  by (simp add: slice_bounds_def)

lemma in_slice_iff:
  assumes "0 \<le> a" "0 \<le> b" "i < n"
  shows "(nat (min a (int n)) \<le> i \<and> i < nat (min b (int n))) \<longleftrightarrow> (a \<le> int i \<and> int i < b)"
  using assms by auto

lemma in_block_iff:
  "in_block pR pC i j \<longleftrightarrow>
     (pR - 1 \<le> int i \<and> int i < pR + 2) \<and> (pC - 1 \<le> int j \<and> int j < pC + 2)"
  by (auto simp: in_block_def)

lemma enumerate_index_bound: "(i, x) \<in> set (enumerate n xs) \<Longrightarrow> n \<le> i \<and> i < n + length xs"
  by (auto simp: in_set_enumerate_eq)

lemma enumerate_mem: "(i, x) \<in> set (enumerate 0 xs) \<Longrightarrow> x \<in> set xs"
  by (auto simp: in_set_enumerate_eq)

lemma rectangular_mem: "rectangular a \<Longrightarrow> row \<in> set (rws a) \<Longrightarrow> length row = ncols a"
  by (simp add: rectangular_def list_all_iff)

lemma assign_block_rows:
  assumes rect: "rectangular a" and p: "1 \<le> pR" "1 \<le> pC"
  shows "rws (assign_block (pR - 1) (pR + 2) (pC - 1) (pC + 2) v a) =
           map (\<lambda>(i, row). map (\<lambda>(j, x). if in_block pR pC i j then v else x) (enumerate 0 row))
               (enumerate 0 (rws a))"
proof -
  have sbr: "slice_bounds (nrows a) (pR - 1) (pR + 2)
               = (nat (min (pR - 1) (int (nrows a))), nat (min (pR + 2) (int (nrows a))))"
    using p by (intro slice_bounds_nonneg) auto
  have sbc: "slice_bounds (ncols a) (pC - 1) (pC + 2)
               = (nat (min (pC - 1) (int (ncols a))), nat (min (pC + 2) (int (ncols a))))"
    using p by (intro slice_bounds_nonneg) auto
  have "map (\<lambda>(i, row). map (\<lambda>(j, x).
              if nat (min (pR - 1) (int (nrows a))) \<le> i \<and> i < nat (min (pR + 2) (int (nrows a)))
                 \<and> nat (min (pC - 1) (int (ncols a))) \<le> j \<and> j < nat (min (pC + 2) (int (ncols a)))
              then v else x) (enumerate 0 row)) (enumerate 0 (rws a))
        = map (\<lambda>(i, row). map (\<lambda>(j, x). if in_block pR pC i j then v else x) (enumerate 0 row))
              (enumerate 0 (rws a))"
  proof (rule map_cong [OF refl], clarify, rule map_cong [OF refl], clarify)
    fix i row j x
    assume ir: "(i, row) \<in> set (enumerate 0 (rws a))" and jx: "(j, x) \<in> set (enumerate 0 row)"
    have i: "i < nrows a" using enumerate_index_bound [OF ir] by (simp add: nrows_def)
    have "length row = ncols a" using rect enumerate_mem [OF ir] by (rule rectangular_mem)
    then have j: "j < ncols a" using enumerate_index_bound [OF jx] by simp
    have R: "(nat (min (pR - 1) (int (nrows a))) \<le> i \<and> i < nat (min (pR + 2) (int (nrows a))))
              \<longleftrightarrow> (pR - 1 \<le> int i \<and> int i < pR + 2)"
      using p i by (intro in_slice_iff) auto
    have C: "(nat (min (pC - 1) (int (ncols a))) \<le> j \<and> j < nat (min (pC + 2) (int (ncols a))))
              \<longleftrightarrow> (pC - 1 \<le> int j \<and> int j < pC + 2)"
      using p j by (intro in_slice_iff) auto
    show "(if nat (min (pR - 1) (int (nrows a))) \<le> i \<and> i < nat (min (pR + 2) (int (nrows a)))
                 \<and> nat (min (pC - 1) (int (ncols a))) \<le> j \<and> j < nat (min (pC + 2) (int (ncols a)))
              then v else x) = (if in_block pR pC i j then v else x)"
    proof -
      have "(nat (min (pR - 1) (int (nrows a))) \<le> i \<and> i < nat (min (pR + 2) (int (nrows a)))
                 \<and> nat (min (pC - 1) (int (ncols a))) \<le> j \<and> j < nat (min (pC + 2) (int (ncols a))))
            \<longleftrightarrow> in_block pR pC i j"
        unfolding in_block_iff using R C by blast
      then show ?thesis by (simp only:)
    qed
  qed
  then show ?thesis by (simp add: assign_block_def sbr sbc)
qed

lemma nth_map_enumerate:
  "i < length xs \<Longrightarrow> map f (enumerate n xs) ! i = f (n + i, xs ! i)"
  by (simp add: nth_enumerate_eq)

lemma calc_shift_reliability_array:
  assumes "get_peakpos scps = Inr (pR, pC)"
  shows "\<exists>confid. calc_shift_reliability scps =
           Inr (confid, assign_block (pR - 1) (pR + 2) (pC - 1) (pC + 2) (- 9999) scps)"
  by (simp add: calc_shift_reliability_def assms Let_def)

subsection \<open>The reliability computation overwrites its argument\<close>

text \<open>
  Claim C9, as the code has it.  When the peak is neither in the first row nor in the
  first column, the call leaves the array with \<open>-9999\<close> in every cell of the 3 by 3
  block centred at the peak (as far as the block lies inside the array) and with all
  other cells, and the shape, unchanged.
\<close>

theorem reliability_overwrites_block:
  assumes "rectangular scps" and "get_peakpos scps = Inr (pR, pC)" and "1 \<le> pR" and "1 \<le> pC"
  shows "\<exists>confid scps'. calc_shift_reliability scps = Inr (confid, scps')
           \<and> nrows scps' = nrows scps \<and> ncols scps' = ncols scps
           \<and> (\<forall>i<nrows scps. \<forall>j<ncols scps.
                 length (rws scps' ! i) = ncols scps
                 \<and> rws scps' ! i ! j = (if in_block pR pC i j then - 9999 else rws scps ! i ! j))"
proof -
  let ?a = "assign_block (pR - 1) (pR + 2) (pC - 1) (pC + 2) (- 9999) scps"
  obtain confid where c: "calc_shift_reliability scps = Inr (confid, ?a)"
    using calc_shift_reliability_array [OF assms(2)] by blast
  have rows: "rws ?a = map (\<lambda>(i, row). map (\<lambda>(j, x). if in_block pR pC i j then - 9999 else x)
                                             (enumerate 0 row)) (enumerate 0 (rws scps))"
    using assms(1,3,4) by (rule assign_block_rows)
  have n: "nrows ?a = nrows scps" by (simp add: nrows_def rows)
  have m: "ncols ?a = ncols scps" by (simp add: assign_block_def split: prod.splits)
  have cells: "length (rws ?a ! i) = ncols scps
      \<and> rws ?a ! i ! j = (if in_block pR pC i j then - 9999 else rws scps ! i ! j)"
    if "i < nrows scps" "j < ncols scps" for i j
  proof -
    have len: "length (rws scps ! i) = ncols scps"
      using assms(1) that(1) by (rule rectangular_row)
    have "rws ?a ! i = map (\<lambda>(j, x). if in_block pR pC i j then - 9999 else x)
                           (enumerate 0 (rws scps ! i))"
      using that(1) by (simp add: rows nrows_def nth_enumerate_eq)
    then show ?thesis using that(2) len by (simp add: nth_enumerate_eq)
  qed
  show ?thesis using c n m cells by blast
qed

theorem reliability_overwrites_block_witness:
  "\<exists>confid scps'. calc_shift_reliability ex_scps4 = Inr (confid, scps')
      \<and> nrows scps' = 4 \<and> ncols scps' = 4
      \<and> rws scps' ! 2 ! 2 = - 9999 \<and> rws scps' ! 1 ! 3 = - 9999 \<and> rws scps' ! 0 ! 3 = 1"
proof -
  have r: "rectangular ex_scps4" by (simp add: ex_scps4_def rectangular_def)
  have p: "get_peakpos ex_scps4 = Inr (2, 2)"
    by (simp add: get_peakpos_def np_argmax_def ex_scps4_def)
  have n: "nrows ex_scps4 = 4" "ncols ex_scps4 = 4" by (simp_all add: ex_scps4_def nrows_def)
  from reliability_overwrites_block [OF r p]
  obtain confid scps' where c: "calc_shift_reliability ex_scps4 = Inr (confid, scps')"
    and s: "nrows scps' = nrows ex_scps4" "ncols scps' = ncols ex_scps4"
    and cells: "\<forall>i<nrows ex_scps4. \<forall>j<ncols ex_scps4.
                 length (rws scps' ! i) = ncols ex_scps4
                 \<and> rws scps' ! i ! j = (if in_block 2 2 i j then - 9999 else rws ex_scps4 ! i ! j)"
    by auto
  have "rws scps' ! 2 ! 2 = - 9999" "rws scps' ! 1 ! 3 = - 9999" "rws scps' ! 0 ! 3 = 1"
    using cells [rule_format, of 2 2] cells [rule_format, of 1 3] cells [rule_format, of 0 3]
    by (simp_all add: n in_block_def) (simp add: ex_scps4_def)
  then show ?thesis using c s n by auto
qed

text \<open>
  Claim C9 as stated fails for a peak in the first row: the slice \<open>-1:2\<close> of an array
  with four rows is empty, so nothing is overwritten, not even the peak.
\<close>

theorem reliability_overwrites_block_counterexample:
  "get_peakpos ex_scps_corner = Inr (0, 0)
   \<and> snd (projr (calc_shift_reliability ex_scps_corner)) = ex_scps_corner"
proof -
  have p: "get_peakpos ex_scps_corner = Inr (0, 0)"
    by (simp add: get_peakpos_def np_argmax_def ex_scps_corner_def)
  obtain confid where "calc_shift_reliability ex_scps_corner =
      Inr (confid, assign_block (0 - 1) (0 + 2) (0 - 1) (0 + 2) (- 9999) ex_scps_corner)"
    using calc_shift_reliability_array [OF p] by blast
  moreover have "assign_block (0 - 1) (0 + 2) (0 - 1) (0 + 2) (- 9999) ex_scps_corner
                   = ex_scps_corner"
    by (simp add: assign_block_def slice_bounds_def ex_scps_corner_def nrows_def)
  ultimately show ?thesis using p by simp
qed

subsection \<open>Reliability\<close>

















subsection \<open>Effects of the steps of a run on the object\<close>



lemma same_config_success: "same_config s (t\<lparr>success := b\<rparr>) = same_config s t"
  by (simp add: same_config_def)









subsection \<open>The validation loop\<close>


subsection \<open>Runs on concrete windows\<close>








subsection \<open>The bound on the shift\<close>






subsection \<open>Error tracking\<close>





subsection \<open>Inverting the shift report\<close>






end
